theory Spec2Isabelle
  imports Main
begin

section \<open>JavaScript values used by the profile edit form\<close>

text \<open>
  Strings are lists of characters; \<open>length\<close> is the string's \<open>.length\<close>.
  A value that may be \<open>undefined\<close> or \<open>null\<close> is an option. A string is falsy
  exactly when it is absent or empty.
\<close>

definition truthy :: "string option \<Rightarrow> bool" where
  "truthy v = (case v of None \<Rightarrow> False | Some s \<Rightarrow> s \<noteq> [])"

definition or_null :: "string option \<Rightarrow> string option" where
  \<comment> \<open>\<open>v || null\<close>\<close>
  "or_null v = (if truthy v then v else None)"

definition or_empty :: "string option \<Rightarrow> string" where
  \<comment> \<open>\<open>v || ""\<close>\<close>
  "or_empty v = (case v of None \<Rightarrow> [] | Some s \<Rightarrow> s)"

definition startsWith :: "string \<Rightarrow> string \<Rightarrow> bool" where
  \<comment> \<open>\<open>s.startsWith(p)\<close>\<close>
  "startsWith s p = (take (length p) s = p)"

text \<open>
  A \<open>Date\<close> object holds a time value in milliseconds or is the invalid date;
  \<open>toISOString\<close> raises a RangeError on the invalid date.
\<close>

datatype js_date = Date_ms int | Invalid_Date

section \<open>The User entity as the form reads it\<close>

record profile =
  p_bio :: "string option"
  p_pfp :: "string option"
  p_birthdate :: "string option"
  p_website :: "string option"

record user =
  u_id :: "string option"
  u_username :: string
  u_firstName :: "string option"
  u_lastName :: "string option"
  u_location :: "string option"
  u_about :: "string option"
  u_profile :: "profile option"

definition persisted_pfp :: "user \<Rightarrow> string option" where
  \<comment> \<open>\<open>user.profile?.pfp || null\<close>\<close>
  "persisted_pfp u = or_null (case u_profile u of None \<Rightarrow> None | Some p \<Rightarrow> p_pfp p)"

definition checked_user :: "user option \<Rightarrow> (user \<times> string) option" where
  \<comment> \<open>the guard \<open>!user || !user.id\<close>: \<open>None\<close> exactly when the guard fires,
      otherwise the user together with its (non-empty) id\<close>
  "checked_user uo =
     (case uo of
        None \<Rightarrow> None
      | Some u \<Rightarrow>
          (case u_id u of
             None \<Rightarrow> None
           | Some i \<Rightarrow> if i = [] then None else Some (u, i)))"

section \<open>profileFormSchema\<close>

record ProfileFormValues =
  username :: string
  firstName :: "string option"
  lastName :: "string option"
  location :: "string option"
  about :: "string option"
  bio :: "string option"
  website :: "string option"
  birthdate :: "js_date option"

datatype field = Username | FirstName | LastName | Location | About | Bio | Website | Birthdate

definition username_issues :: "string \<Rightarrow> string list" where
  \<comment> \<open>\<open>z.string().min(3, ...).max(30, ...)\<close>\<close>
  "username_issues s =
     (if length s < 3 then [''Username must be at least 3 characters.''] else []) @
     (if length s > 30 then [''Username must not be longer than 30 characters.''] else [])"

definition bio_issues :: "string option \<Rightarrow> string list" where
  \<comment> \<open>\<open>z.string().max(160, ...).optional()\<close>\<close>
  "bio_issues v =
     (case v of
        None \<Rightarrow> []
      | Some s \<Rightarrow>
          if length s > 160 then [''Bio must not be longer than 160 characters.''] else [])"

definition website_issues :: "(string \<Rightarrow> bool) \<Rightarrow> string option \<Rightarrow> string list" where
  \<comment> \<open>\<open>z.string().url(...).optional().or(z.literal(""))\<close>; the first argument is the
      URL syntax check of the validation library\<close>
  "website_issues isUrl v =
     (case v of
        None \<Rightarrow> []
      | Some s \<Rightarrow>
          if isUrl s then []
          else if s = [] then []
          else [''Please enter a valid URL.''])"

definition birthdate_issues :: "js_date option \<Rightarrow> string list" where
  \<comment> \<open>\<open>z.date().optional()\<close>\<close>
  "birthdate_issues v =
     (case v of
        None \<Rightarrow> []
      | Some Invalid_Date \<Rightarrow> [''Invalid date'']
      | Some (Date_ms t) \<Rightarrow> [])"

definition profileFormSchema :: "(string \<Rightarrow> bool) \<Rightarrow> ProfileFormValues \<Rightarrow> (field \<times> string) list" where
  \<comment> \<open>the issues of a parse, field by field; the parse succeeds when there are none\<close>
  "profileFormSchema isUrl d =
     map (Pair Username) (username_issues (username d)) @
     map (Pair Bio) (bio_issues (bio d)) @
     map (Pair Website) (website_issues isUrl (website d)) @
     map (Pair Birthdate) (birthdate_issues (birthdate d))"

section \<open>Component state and observable effects\<close>

record js_file =
  file_size :: nat
  file_type :: string

datatype toast = Toast (title: string) (description: string) (destructive: bool)

definition toast_missing_user :: toast where
  "toast_missing_user = Toast ''Error'' ''User data is missing. Please try again.'' True"

definition toast_size :: toast where
  "toast_size = Toast ''Error'' ''Image size must be less than 5MB'' True"

definition toast_type :: toast where
  "toast_type = Toast ''Error'' ''Only image files are allowed'' True"

definition toast_upload_ok :: toast where
  "toast_upload_ok = Toast ''Success'' ''Profile image uploaded successfully'' False"

definition toast_upload_failed :: toast where
  "toast_upload_failed =
     Toast ''Error'' ''Failed to upload profile image. Please try again.'' True"

definition toast_update_ok :: toast where
  "toast_update_ok = Toast ''Success'' ''Profile updated successfully'' False"

definition toast_update_failed :: toast where
  "toast_update_failed = Toast ''Error'' ''Failed to update profile. Please try again.'' True"

text \<open>The request sent to \<open>/api/upload\<close>: the file and the two identity headers.\<close>

record upload_request =
  req_file :: js_file
  x_user_id :: string
  x_user_username :: string

text \<open>The partial user record handed to \<open>userController.updateProfile\<close>.\<close>

record profile_payload =
  pp_bio :: "string option"
  pp_website :: "string option"
  pp_birthdate :: "string option"
  pp_pfp :: "string option"

record profileData =
  pd_username :: string
  pd_firstName :: string
  pd_lastName :: string
  pd_location :: string
  pd_about :: string
  pd_profile :: profile_payload

text \<open>
  The four \<open>useState\<close> cells and the form's values, followed by a log of everything the
  component does to the outside: notices shown, file reads started, requests sent,
  controller calls, and calls of the two parent callbacks. \<open>reads_done\<close> counts the
  file reads that have finished; the last two fields say whether a handler is suspended
  at its \<open>await\<close>.
\<close>

record state =
  isSubmitting :: bool
  uploadingImage :: bool
  profileImage :: "js_file option"
  profileImagePreview :: "string option"
  form_values :: ProfileFormValues
  form_errors :: "(field \<times> string) list"
  toasts :: "toast list"
  console_errors :: nat
  reads :: "js_file list"
  reads_done :: nat
  fetches :: "upload_request list"
  updateProfile_calls :: "(string \<times> profileData) list"
  onUpdate_calls :: "user list"
  onClose_calls :: nat
  upload_pending :: bool
  update_pending :: bool

definition show_toast :: "toast \<Rightarrow> state \<Rightarrow> state" where
  "show_toast t st = st\<lparr>toasts := toasts st @ [t]\<rparr>"

definition console_error :: "state \<Rightarrow> state" where
  "console_error st = st\<lparr>console_errors := Suc (console_errors st)\<rparr>"

definition initial_state :: "(string \<Rightarrow> js_date) \<Rightarrow> user option \<Rightarrow> state" where
  \<comment> \<open>the \<open>useState\<close> initial values and the form's \<open>defaultValues\<close>; the first
      argument is \<open>new Date(string)\<close>\<close>
  "initial_state newDate uo =
     \<lparr>isSubmitting = False,
      uploadingImage = False,
      profileImage = None,
      profileImagePreview = (case uo of None \<Rightarrow> None | Some u \<Rightarrow> persisted_pfp u),
      form_values =
        \<lparr>username = (case uo of None \<Rightarrow> [] | Some u \<Rightarrow> u_username u),
         firstName = Some (or_empty (case uo of None \<Rightarrow> None | Some u \<Rightarrow> u_firstName u)),
         lastName = Some (or_empty (case uo of None \<Rightarrow> None | Some u \<Rightarrow> u_lastName u)),
         location = Some (or_empty (case uo of None \<Rightarrow> None | Some u \<Rightarrow> u_location u)),
         about = Some (or_empty (case uo of None \<Rightarrow> None | Some u \<Rightarrow> u_about u)),
         bio = Some (or_empty (case uo of None \<Rightarrow> None
                  | Some u \<Rightarrow> (case u_profile u of None \<Rightarrow> None | Some p \<Rightarrow> p_bio p))),
         website = Some (or_empty (case uo of None \<Rightarrow> None
                  | Some u \<Rightarrow> (case u_profile u of None \<Rightarrow> None | Some p \<Rightarrow> p_website p))),
         birthdate =
           (case uo of
              None \<Rightarrow> None
            | Some u \<Rightarrow>
                (case u_profile u of
                   None \<Rightarrow> None
                 | Some p \<Rightarrow> if truthy (p_birthdate p) then Some (newDate (or_empty (p_birthdate p))) else None))\<rparr>,
      form_errors = [],
      toasts = [],
      console_errors = 0,
      reads = [],
      reads_done = 0,
      fetches = [],
      updateProfile_calls = [],
      onUpdate_calls = [],
      onClose_calls = 0,
      upload_pending = False,
      update_pending = False\<rparr>"

section \<open>handleImageChange\<close>

text \<open>
  What the awaited \<open>fetch\<close> and \<open>response.json()\<close> can deliver. \<open>Json_throws\<close> stands for
  every body from which reading \<open>.url\<close> raises (unparsable, or \<open>null\<close>).
\<close>

record upload_data =
  d_url :: "string option"

record upload_result =
  r_url :: "string option"
  r_data :: "upload_data option"

datatype response_json = Json_throws | Json_object upload_result

datatype fetch_outcome = Fetch_rejects | Fetch_response bool response_json

definition imageUrl_of :: "upload_result \<Rightarrow> string option" where
  \<comment> \<open>\<open>uploadResult.url || uploadResult.data?.url\<close>\<close>
  "imageUrl_of r =
     (if truthy (r_url r) then r_url r
      else (case r_data r of None \<Rightarrow> None | Some d \<Rightarrow> d_url d))"

definition handleImageChange_start ::
    "user option \<Rightarrow> js_file list option \<Rightarrow> state \<Rightarrow> state \<times> (user \<times> upload_request) option" where
  \<comment> \<open>the handler up to its \<open>await fetch(...)\<close>; the second component is the request
      sent, with the user the closure holds, or \<open>None\<close> when the handler returned early\<close>
  "handleImageChange_start uo files st =
     (case files of
        None \<Rightarrow> (st, None)
      | Some [] \<Rightarrow> (st, None)
      | Some (f # fs) \<Rightarrow>
          (case checked_user uo of
             None \<Rightarrow> (show_toast toast_missing_user st, None)
           | Some (u, uid) \<Rightarrow>
               if file_size f > 5 * 1024 * 1024 then (show_toast toast_size st, None)
               else if \<not> startsWith (file_type f) ''image/'' then (show_toast toast_type st, None)
               else
                 (let req = \<lparr>req_file = f, x_user_id = uid, x_user_username = u_username u\<rparr>
                  in (st\<lparr>profileImage := Some f,
                         reads := reads st @ [f],
                         uploadingImage := True,
                         fetches := fetches st @ [req]\<rparr>,
                      Some (u, req)))))"

definition reader_onloadend :: "string option \<Rightarrow> state \<Rightarrow> state" where
  \<comment> \<open>\<open>reader.onloadend\<close>, run by the event loop when the file read ends\<close>
  "reader_onloadend result st =
     st\<lparr>profileImagePreview := result, reads_done := Suc (reads_done st)\<rparr>"

definition upload_catch :: "user \<Rightarrow> state \<Rightarrow> state" where
  \<comment> \<open>the \<open>catch\<close> block followed by \<open>finally\<close>\<close>
  "upload_catch u st =
     (show_toast toast_upload_failed (console_error st))
       \<lparr>profileImagePreview := persisted_pfp u,
        profileImage := None,
        uploadingImage := False\<rparr>"

definition handleImageChange_resume :: "user \<Rightarrow> fetch_outcome \<Rightarrow> state \<Rightarrow> state" where
  \<comment> \<open>the handler from the point where the awaited request settles\<close>
  "handleImageChange_resume u oc st =
     (case oc of
        Fetch_rejects \<Rightarrow> upload_catch u st
      | Fetch_response ok js \<Rightarrow>
          if \<not> ok then upload_catch u st
          else
            (case js of
               Json_throws \<Rightarrow> upload_catch u st
             | Json_object r \<Rightarrow>
                 if \<not> truthy (imageUrl_of r) then upload_catch u st
                 else
                   (show_toast toast_upload_ok (st\<lparr>profileImagePreview := imageUrl_of r\<rparr>))
                     \<lparr>uploadingImage := False\<rparr>))"

definition handleImageChange ::
    "user option \<Rightarrow> js_file list option \<Rightarrow> fetch_outcome \<Rightarrow> state \<Rightarrow> state" where
  \<comment> \<open>one whole run of the handler, the request settling with the given outcome\<close>
  "handleImageChange uo files oc st =
     (case handleImageChange_start uo files st of
        (st', None) \<Rightarrow> st'
      | (st', Some (u, req)) \<Rightarrow> handleImageChange_resume u oc st')"

definition upload_fails :: "fetch_outcome \<Rightarrow> bool" where
  \<comment> \<open>network error, non-OK status, unreadable body, or a body with no URL\<close>
  "upload_fails oc =
     (case oc of
        Fetch_rejects \<Rightarrow> True
      | Fetch_response ok js \<Rightarrow>
          if ok then (case js of Json_throws \<Rightarrow> True | Json_object r \<Rightarrow> \<not> truthy (imageUrl_of r))
          else True)"

section \<open>onSubmit\<close>

definition birthdate_iso :: "(int \<Rightarrow> string) \<Rightarrow> js_date option \<Rightarrow> string option option" where
  \<comment> \<open>\<open>data.birthdate ? data.birthdate.toISOString() : null\<close>; the outer \<open>None\<close> is the
      RangeError of the invalid date\<close>
  "birthdate_iso toISOString v =
     (case v of
        None \<Rightarrow> Some None
      | Some Invalid_Date \<Rightarrow> None
      | Some (Date_ms t) \<Rightarrow> Some (Some (toISOString t)))"

definition make_profileData ::
    "(int \<Rightarrow> string) \<Rightarrow> string option \<Rightarrow> ProfileFormValues \<Rightarrow> profileData option" where
  "make_profileData toISOString preview d =
     (case birthdate_iso toISOString (birthdate d) of
        None \<Rightarrow> None
      | Some b \<Rightarrow>
          Some \<lparr>pd_username = username d,
                pd_firstName = or_empty (firstName d),
                pd_lastName = or_empty (lastName d),
                pd_location = or_empty (location d),
                pd_about = or_empty (about d),
                pd_profile =
                  \<lparr>pp_bio = or_null (bio d),
                   pp_website = or_null (website d),
                   pp_birthdate = b,
                   pp_pfp = preview\<rparr>\<rparr>)"

datatype controller_outcome = Controller_throws | Controller_returns "user option"

definition update_catch :: "state \<Rightarrow> state" where
  \<comment> \<open>the \<open>catch\<close> block followed by \<open>finally\<close>\<close>
  "update_catch st = (show_toast toast_update_failed (console_error st))\<lparr>isSubmitting := False\<rparr>"

definition onSubmit_start ::
    "(int \<Rightarrow> string) \<Rightarrow> user option \<Rightarrow> ProfileFormValues \<Rightarrow> state
       \<Rightarrow> state \<times> (string \<times> profileData) option" where
  \<comment> \<open>the handler up to its \<open>await userController.updateProfile(...)\<close>; the second
      component is the call made, or \<open>None\<close> when the handler ended before it\<close>
  "onSubmit_start toISOString uo d st =
     (case checked_user uo of
        None \<Rightarrow> (show_toast toast_missing_user st, None)
      | Some (u, uid) \<Rightarrow>
          (let st1 = st\<lparr>isSubmitting := True\<rparr>
           in (case make_profileData toISOString (profileImagePreview st) d of
                 None \<Rightarrow> (update_catch st1, None)
               | Some pd \<Rightarrow>
                   (st1\<lparr>updateProfile_calls := updateProfile_calls st1 @ [(uid, pd)]\<rparr>,
                    Some (uid, pd)))))"

definition onSubmit_resume :: "controller_outcome \<Rightarrow> bool \<Rightarrow> state \<Rightarrow> state" where
  \<comment> \<open>the handler from the point where the controller call settles; the flag says
      whether the parent's \<open>onUpdate\<close> raises\<close>
  "onSubmit_resume oc onUpdate_throws st =
     (case oc of
        Controller_throws \<Rightarrow> update_catch st
      | Controller_returns None \<Rightarrow> update_catch st
      | Controller_returns (Some updatedUser) \<Rightarrow>
          (let st1 = (show_toast toast_update_ok st)
                       \<lparr>onUpdate_calls := onUpdate_calls st @ [updatedUser]\<rparr>
           in if onUpdate_throws then update_catch st1 else st1\<lparr>isSubmitting := False\<rparr>))"

definition onSubmit ::
    "(int \<Rightarrow> string) \<Rightarrow> user option \<Rightarrow> ProfileFormValues \<Rightarrow> controller_outcome \<Rightarrow> bool
       \<Rightarrow> state \<Rightarrow> state" where
  \<comment> \<open>one whole run of the handler, the controller call settling with the given outcome\<close>
  "onSubmit toISOString uo d oc onUpdate_throws st =
     (case onSubmit_start toISOString uo d st of
        (st', None) \<Rightarrow> st'
      | (st', Some call) \<Rightarrow> onSubmit_resume oc onUpdate_throws st')"

text \<open>
  \<open>form.handleSubmit(onSubmit)\<close> with the schema as resolver: the values are parsed, and
  \<open>onSubmit\<close> runs only when the parse has no issue; otherwise the issues become the
  form's errors.
\<close>

definition handleSubmit_start ::
    "(string \<Rightarrow> bool) \<Rightarrow> (int \<Rightarrow> string) \<Rightarrow> user option \<Rightarrow> state
       \<Rightarrow> state \<times> (string \<times> profileData) option" where
  "handleSubmit_start isUrl toISOString uo st =
     (let issues = profileFormSchema isUrl (form_values st)
      in if issues = [] then onSubmit_start toISOString uo (form_values st) (st\<lparr>form_errors := []\<rparr>)
         else (st\<lparr>form_errors := issues\<rparr>, None))"

definition handleSubmit ::
    "(string \<Rightarrow> bool) \<Rightarrow> (int \<Rightarrow> string) \<Rightarrow> user option \<Rightarrow> controller_outcome \<Rightarrow> bool
       \<Rightarrow> state \<Rightarrow> state" where
  "handleSubmit isUrl toISOString uo oc onUpdate_throws st =
     (case handleSubmit_start isUrl toISOString uo st of
        (st', None) \<Rightarrow> st'
      | (st', Some call) \<Rightarrow> onSubmit_resume oc onUpdate_throws st')"

section \<open>The rendered controls and the events of the component\<close>

definition submit_disabled :: "state \<Rightarrow> bool" where
  \<comment> \<open>\<open>disabled={isSubmitting || uploadingImage}\<close> on the submit button\<close>
  "submit_disabled st = (isSubmitting st \<or> uploadingImage st)"

definition file_input_disabled :: "state \<Rightarrow> bool" where
  \<comment> \<open>\<open>disabled={uploadingImage}\<close> on the file input and on the two photo buttons\<close>
  "file_input_disabled st = uploadingImage st"

definition remove_shown :: "user \<Rightarrow> state \<Rightarrow> bool" where
  \<comment> \<open>\<open>profileImagePreview && profileImagePreview !== user.profile?.pfp\<close>\<close>
  "remove_shown u st =
     (truthy (profileImagePreview st) \<and>
      profileImagePreview st \<noteq> (case u_profile u of None \<Rightarrow> None | Some p \<Rightarrow> p_pfp p))"

definition remove_click :: "user \<Rightarrow> state \<Rightarrow> state" where
  "remove_click u st = st\<lparr>profileImage := None, profileImagePreview := persisted_pfp u\<rparr>"

datatype event =
    Change_file "js_file list option"
  | Reader_loadend "string option"
  | Fetch_settled fetch_outcome
  | Click_remove
  | Edit_values ProfileFormValues
  | Submit
  | Controller_settled controller_outcome bool
  | Close

definition step ::
    "(string \<Rightarrow> bool) \<Rightarrow> (int \<Rightarrow> string) \<Rightarrow> user option \<Rightarrow> state \<Rightarrow> event \<Rightarrow> state" where
  \<comment> \<open>one turn of the event loop; an event whose control is not rendered or is disabled,
      or whose awaited operation is not pending, changes nothing. \<open>Submit\<close> is the form's
      submit event, which the browser raises only through the enabled submit button\<close>
  "step isUrl toISOString uo st ev =
     (case uo of
        None \<Rightarrow> st
      | Some u \<Rightarrow>
          (case ev of
             Change_file files \<Rightarrow>
               if file_input_disabled st then st
               else (case handleImageChange_start uo files st of
                       (st', None) \<Rightarrow> st'
                     | (st', Some r) \<Rightarrow> st'\<lparr>upload_pending := True\<rparr>)
           | Reader_loadend result \<Rightarrow>
               if reads_done st < length (reads st) then reader_onloadend result st else st
           | Fetch_settled oc \<Rightarrow>
               if upload_pending st
               then (handleImageChange_resume u oc st)\<lparr>upload_pending := False\<rparr>
               else st
           | Click_remove \<Rightarrow>
               if remove_shown u st \<and> \<not> file_input_disabled st then remove_click u st else st
           | Edit_values v \<Rightarrow> st\<lparr>form_values := v\<rparr>
           | Submit \<Rightarrow>
               if submit_disabled st then st
               else (case handleSubmit_start isUrl toISOString uo st of
                       (st', None) \<Rightarrow> st'
                     | (st', Some c) \<Rightarrow> st'\<lparr>update_pending := True\<rparr>)
           | Controller_settled oc onUpdate_throws \<Rightarrow>
               if update_pending st
               then (onSubmit_resume oc onUpdate_throws st)\<lparr>update_pending := False\<rparr>
               else st
           | Close \<Rightarrow> st\<lparr>onClose_calls := Suc (onClose_calls st)\<rparr>))"

definition run ::
    "(string \<Rightarrow> bool) \<Rightarrow> (int \<Rightarrow> string) \<Rightarrow> (string \<Rightarrow> js_date) \<Rightarrow> user option \<Rightarrow> event list \<Rightarrow> state" where
  \<comment> \<open>the state after a sequence of events, from the first render\<close>
  "run isUrl toISOString newDate uo evs =
     foldl (step isUrl toISOString uo) (initial_state newDate uo) evs"

section \<open>Sample inputs\<close>

text \<open>
  A user with a persisted picture, the same user without an id, two files, and concrete
  stand-ins for the three library functions the model takes as arguments (the URL syntax
  check, \<open>Date.prototype.toISOString\<close> and \<open>new Date(string)\<close>), used to evaluate the
  handlers on examples.
\<close>

definition alice :: user where
  "alice =
     \<lparr>u_id = Some ''u1'', u_username = ''alice123'', u_firstName = None, u_lastName = None,
      u_location = None, u_about = None,
      u_profile = Some \<lparr>p_bio = Some ''hi'', p_pfp = Some ''https://x/old.png'',
                         p_birthdate = None, p_website = None\<rparr>\<rparr>"

definition anonymous :: user where
  "anonymous = alice\<lparr>u_id := None\<rparr>"

definition small_png :: js_file where
  "small_png = \<lparr>file_size = 2048, file_type = ''image/png''\<rparr>"

definition huge_png :: js_file where
  "huge_png = \<lparr>file_size = 6 * 1024 * 1024, file_type = ''image/png''\<rparr>"

definition sample_isUrl :: "string \<Rightarrow> bool" where
  "sample_isUrl s = (startsWith s ''http://'' \<or> startsWith s ''https://'')"

definition sample_toISOString :: "int \<Rightarrow> string" where
  "sample_toISOString t = (if t = 0 then ''1970-01-01T00:00:00.000Z'' else ''other'')"

definition sample_newDate :: "string \<Rightarrow> js_date" where
  "sample_newDate s = (if s = ''1970-01-01T00:00:00.000Z'' then Date_ms 0 else Invalid_Date)"

definition alice_form :: state where
  \<comment> \<open>the form as first rendered for \<open>alice\<close>: username \<open>alice123\<close>, bio \<open>hi\<close>, website empty\<close>
  "alice_form = initial_state sample_newDate (Some alice)"

definition uploaded_once :: state where
  \<comment> \<open>the form after one picture has been chosen and uploaded, not yet saved\<close>
  "uploaded_once =
     run sample_isUrl sample_toISOString sample_newDate (Some alice)
       [Change_file (Some [small_png]),
        Reader_loadend (Some ''data:image/png;base64,AAAA''),
        Fetch_settled (Fetch_response True
          (Json_object \<lparr>r_url = Some ''https://x/img.png'', r_data = None\<rparr>))]"

section \<open>Auxiliary facts\<close>

lemmas js_defs = truthy_def or_null_def or_empty_def startsWith_def

lemmas schema_defs = profileFormSchema_def username_issues_def bio_issues_def
  website_issues_def birthdate_issues_def

lemmas effect_defs = show_toast_def console_error_def

lemmas upload_defs = handleImageChange_def handleImageChange_start_def
  handleImageChange_resume_def upload_catch_def imageUrl_of_def upload_fails_def

lemmas submit_defs = handleSubmit_def handleSubmit_start_def onSubmit_def onSubmit_start_def
  onSubmit_resume_def update_catch_def make_profileData_def birthdate_iso_def

lemmas sample_defs = alice_def anonymous_def small_png_def huge_png_def sample_isUrl_def
  sample_toISOString_def sample_newDate_def alice_form_def initial_state_def persisted_pfp_def
  checked_user_def

lemma missing_user_checked:
  "uo = None \<or> (\<exists>u. uo = Some u \<and> \<not> truthy (u_id u)) \<Longrightarrow> checked_user uo = None"
  by (auto simp: checked_user_def truthy_def split: option.splits)

lemma checked_user_SomeD:
  "checked_user uo = Some (u, uid) \<Longrightarrow> uo = Some u \<and> u_id u = Some uid \<and> uid \<noteq> []"
  by (auto simp: checked_user_def split: option.splits if_splits)

lemma checked_userI:
  "u_id u = Some uid \<Longrightarrow> uid \<noteq> [] \<Longrightarrow> checked_user (Some u) = Some (u, uid)"
  by (simp add: checked_user_def)

lemma valid_birthdate:
  "profileFormSchema isUrl d = [] \<Longrightarrow> birthdate d \<noteq> Some Invalid_Date"
  by (auto simp: schema_defs split: option.splits js_date.splits)

lemma valid_make_profileData:
  "profileFormSchema isUrl d = [] \<Longrightarrow>
   make_profileData toISO pv d =
     Some \<lparr>pd_username = username d,
           pd_firstName = or_empty (firstName d),
           pd_lastName = or_empty (lastName d),
           pd_location = or_empty (location d),
           pd_about = or_empty (about d),
           pd_profile =
             \<lparr>pp_bio = or_null (bio d),
              pp_website = or_null (website d),
              pp_birthdate = (case birthdate d of Some (Date_ms t) \<Rightarrow> Some (toISO t) | _ \<Rightarrow> None),
              pp_pfp = pv\<rparr>\<rparr>"
  using valid_birthdate [of isUrl d]
  by (auto simp: make_profileData_def birthdate_iso_def split: option.splits js_date.splits)

lemma handleSubmit_start_valid:
  assumes "checked_user uo = Some (u, uid)" and "profileFormSchema isUrl (form_values st) = []"
  shows "\<exists>pd. make_profileData toISO (profileImagePreview st) (form_values st) = Some pd \<and>
     handleSubmit_start isUrl toISO uo st =
       (st\<lparr>form_errors := [], isSubmitting := True,
           updateProfile_calls := updateProfile_calls st @ [(uid, pd)]\<rparr>, Some (uid, pd))"
  using assms valid_make_profileData [OF assms(2), of toISO "profileImagePreview st"]
  by (simp add: handleSubmit_start_def onSubmit_start_def Let_def)

lemma handleSubmit_start_invalid:
  "profileFormSchema isUrl (form_values st) \<noteq> [] \<Longrightarrow>
   handleSubmit_start isUrl toISO uo st =
     (st\<lparr>form_errors := profileFormSchema isUrl (form_values st)\<rparr>, None)"
  by (simp add: handleSubmit_start_def Let_def)

lemma alice_form_valid: "profileFormSchema sample_isUrl (form_values alice_form) = []"
  by (simp add: sample_defs js_defs schema_defs)

lemma uploaded_once_preview: "profileImagePreview uploaded_once = Some ''https://x/img.png''"
  by (simp add: uploaded_once_def run_def step_def sample_defs js_defs upload_defs effect_defs
      file_input_disabled_def reader_onloadend_def Let_def)

lemma upload_catch_props:
  "profileImagePreview (upload_catch u st) = persisted_pfp u \<and>
   profileImage (upload_catch u st) = None \<and>
   \<not> uploadingImage (upload_catch u st) \<and>
   toasts (upload_catch u st) = toasts st @ [toast_upload_failed] \<and>
   fetches (upload_catch u st) = fetches st"
  by (simp add: upload_catch_def effect_defs)

lemma resume_fails: "upload_fails oc \<Longrightarrow> handleImageChange_resume u oc st = upload_catch u st"
  by (auto simp: upload_fails_def handleImageChange_resume_def
      split: fetch_outcome.splits response_json.splits if_splits)

lemma start_sends:
  "handleImageChange_start uo files st = (st1, Some (u, req)) \<Longrightarrow>
   toasts st1 = toasts st \<and> (\<exists>uid. checked_user uo = Some (u, uid))"
  by (auto simp: handleImageChange_start_def Let_def effect_defs
      split: option.splits list.splits if_splits)

lemma step_pending:
  "upload_pending st = uploadingImage st \<Longrightarrow>
   upload_pending (step isUrl toISO uo st ev) = uploadingImage (step isUrl toISO uo st ev)"
  by (cases uo; cases ev)
     (auto simp: step_def file_input_disabled_def handleImageChange_start_def show_toast_def
        reader_onloadend_def handleImageChange_resume_def upload_catch_def console_error_def
        remove_click_def handleSubmit_start_def onSubmit_start_def onSubmit_resume_def
        update_catch_def Let_def
      split: option.splits list.splits if_splits prod.splits fetch_outcome.splits
        response_json.splits controller_outcome.splits)

lemma foldl_step_pending:
  "upload_pending st = uploadingImage st \<Longrightarrow>
   upload_pending (foldl (step isUrl toISO uo) st evs)
     = uploadingImage (foldl (step isUrl toISO uo) st evs)"
  by (induction evs arbitrary: st) (simp_all add: step_pending)

lemma run_pending:
  "upload_pending (run isUrl toISO newDate uo evs) = uploadingImage (run isUrl toISO newDate uo evs)"
  unfolding run_def by (rule foldl_step_pending) (simp add: initial_state_def)

lemma other_fields_not_username:
  "Username \<notin> fst ` set (map (Pair Bio) xs @ map (Pair Website) ys @ map (Pair Birthdate) zs)"
  by auto

section \<open>Submission: success, failure and payload\<close>

text \<open>
  Claim C1, as amended. For every valid submission by a user with an id, when the
  controller returns an updated user entity, the submit handler calls \<open>onUpdate\<close> exactly
  once, with that entity. It does not call \<open>onClose\<close>: the handler leaves closing the dialog
  to the parent.
\<close>

theorem submit_success_notifies_parent_only:
  assumes "u_id u = Some uid" and "uid \<noteq> []"
    and "profileFormSchema isUrl (form_values st) = []"
  shows "onUpdate_calls (handleSubmit isUrl toISO (Some u) (Controller_returns (Some updatedUser)) thr st)
           = onUpdate_calls st @ [updatedUser] \<and>
         onClose_calls (handleSubmit isUrl toISO (Some u) (Controller_returns (Some updatedUser)) thr st)
           = onClose_calls st"
proof -
  have cu: "checked_user (Some u) = Some (u, uid)"
    using assms(1,2) by (rule checked_userI)
  obtain pd where "handleSubmit_start isUrl toISO (Some u) st =
       (st\<lparr>form_errors := [], isSubmitting := True,
           updateProfile_calls := updateProfile_calls st @ [(uid, pd)]\<rparr>, Some (uid, pd))"
    using handleSubmit_start_valid [OF cu assms(3)] by blast
  then show ?thesis
    by (simp add: handleSubmit_def onSubmit_resume_def update_catch_def effect_defs Let_def)
qed

theorem submit_success_notifies_parent_only_witness:
  "onUpdate_calls (handleSubmit sample_isUrl sample_toISOString (Some alice)
       (Controller_returns (Some alice)) False alice_form) = [alice] \<and>
   onClose_calls (handleSubmit sample_isUrl sample_toISOString (Some alice)
       (Controller_returns (Some alice)) False alice_form) = 0"
proof -
  have a: "u_id alice = Some ''u1''" by (simp add: alice_def)
  have b: "''u1'' \<noteq> []" by simp
  have c: "onUpdate_calls alice_form = []" "onClose_calls alice_form = 0"
    by (simp_all add: alice_form_def initial_state_def)
  show ?thesis
    using submit_success_notifies_parent_only [OF a b alice_form_valid,
        of sample_toISOString alice False] c
    by simp
qed

text \<open>
  Claim C1 as first stated also has \<open>onClose\<close> fire on success. On the sample form, a valid
  submission that the controller answers with a user entity leaves the number of
  \<open>onClose\<close> calls where it was.
\<close>

theorem submit_success_onClose_counterexample:
  "\<not> onClose_calls alice_form
       < onClose_calls (handleSubmit sample_isUrl sample_toISOString (Some alice)
           (Controller_returns (Some alice)) False alice_form)"
  by (simp add: submit_defs sample_defs js_defs schema_defs effect_defs Let_def)

text \<open>
  Claim C3. For every valid submission by a user with an id, the controller is called once,
  with the user's id and a payload made of the top-level fields (the username as entered, the
  other four as entered or the empty string) and a nested profile record: bio and website
  as entered, or null when empty; the birthdate as its ISO timestamp string, or null when
  none was picked; the picture URL equal to the current preview.
\<close>

theorem submit_payload:
  assumes "u_id u = Some uid" and "uid \<noteq> []"
    and "profileFormSchema isUrl (form_values st) = []"
  shows "\<exists>pd. updateProfile_calls (handleSubmit isUrl toISO (Some u) oc thr st)
                 = updateProfile_calls st @ [(uid, pd)] \<and>
           pd_username pd = username (form_values st) \<and>
           pd_firstName pd = or_empty (firstName (form_values st)) \<and>
           pd_lastName pd = or_empty (lastName (form_values st)) \<and>
           pd_location pd = or_empty (location (form_values st)) \<and>
           pd_about pd = or_empty (about (form_values st)) \<and>
           pp_bio (pd_profile pd) =
             (if bio (form_values st) = Some [] then None else bio (form_values st)) \<and>
           pp_website (pd_profile pd) =
             (if website (form_values st) = Some [] then None else website (form_values st)) \<and>
           (case birthdate (form_values st) of
              None \<Rightarrow> pp_birthdate (pd_profile pd) = None
            | Some dt \<Rightarrow> \<exists>t. dt = Date_ms t \<and> pp_birthdate (pd_profile pd) = Some (toISO t)) \<and>
           pp_pfp (pd_profile pd) = profileImagePreview st"
proof -
  have cu: "checked_user (Some u) = Some (u, uid)"
    using assms(1,2) by (rule checked_userI)
  obtain pd where m: "make_profileData toISO (profileImagePreview st) (form_values st) = Some pd"
    and h: "handleSubmit_start isUrl toISO (Some u) st =
       (st\<lparr>form_errors := [], isSubmitting := True,
           updateProfile_calls := updateProfile_calls st @ [(uid, pd)]\<rparr>, Some (uid, pd))"
    using handleSubmit_start_valid [OF cu assms(3)] by blast
  have calls: "updateProfile_calls (handleSubmit isUrl toISO (Some u) oc thr st)
                 = updateProfile_calls st @ [(uid, pd)]"
    using h
    by (simp add: handleSubmit_def onSubmit_resume_def update_catch_def effect_defs Let_def
        split: controller_outcome.splits option.splits)
  have pd: "pd = \<lparr>pd_username = username (form_values st),
           pd_firstName = or_empty (firstName (form_values st)),
           pd_lastName = or_empty (lastName (form_values st)),
           pd_location = or_empty (location (form_values st)),
           pd_about = or_empty (about (form_values st)),
           pd_profile =
             \<lparr>pp_bio = or_null (bio (form_values st)),
              pp_website = or_null (website (form_values st)),
              pp_birthdate = (case birthdate (form_values st) of
                   Some (Date_ms t) \<Rightarrow> Some (toISO t) | _ \<Rightarrow> None),
              pp_pfp = profileImagePreview st\<rparr>\<rparr>"
    using m valid_make_profileData [OF assms(3), of toISO "profileImagePreview st"] by simp
  have nul: "\<And>v. or_null v = (if v = Some [] then None else v)"
    by (auto simp: or_null_def truthy_def split: option.splits)
  have bd: "(case birthdate (form_values st) of
              None \<Rightarrow> pp_birthdate (pd_profile pd) = None
            | Some dt \<Rightarrow> \<exists>t. dt = Date_ms t \<and> pp_birthdate (pd_profile pd) = Some (toISO t))"
    using valid_birthdate [OF assms(3)]
    by (auto simp: pd split: option.splits js_date.splits)
  show ?thesis
    using calls bd by (intro exI [of _ pd]) (simp add: pd nul)
qed

text \<open>
  The end-to-end example of the specification: username \<open>alice123\<close>, bio \<open>hi\<close>, website
  empty.
\<close>

theorem submit_payload_witness:
  "\<exists>pd. updateProfile_calls (handleSubmit sample_isUrl sample_toISOString (Some alice)
             (Controller_returns (Some alice)) False alice_form) = [(''u1'', pd)] \<and>
        pd_username pd = ''alice123'' \<and>
        pp_bio (pd_profile pd) = Some ''hi'' \<and>
        pp_website (pd_profile pd) = None \<and>
        pp_birthdate (pd_profile pd) = None \<and>
        pp_pfp (pd_profile pd) = Some ''https://x/old.png''"
proof -
  have a: "u_id alice = Some ''u1''" by (simp add: alice_def)
  have b: "''u1'' \<noteq> []" by simp
  have c: "updateProfile_calls alice_form = []"
    "username (form_values alice_form) = ''alice123''"
    "bio (form_values alice_form) = Some ''hi''"
    "website (form_values alice_form) = Some []"
    "birthdate (form_values alice_form) = None"
    "profileImagePreview alice_form = Some ''https://x/old.png''"
    by (simp_all add: sample_defs js_defs)
  show ?thesis
    using submit_payload [OF a b alice_form_valid,
        of sample_toISOString "Controller_returns (Some alice)" False]
    by (auto simp: c)
qed

text \<open>
  Claim C6. When the controller call of a valid submission throws or returns a falsy result,
  the generic error notice is shown, \<open>onUpdate\<close> and \<open>onClose\<close> are not called, the form's
  values and the preview are what they were, and the form is no longer submitting.
\<close>

theorem submit_failure_keeps_form:
  assumes "u_id u = Some uid" and "uid \<noteq> []"
    and "profileFormSchema isUrl (form_values st) = []"
    and "oc = Controller_throws \<or> oc = Controller_returns None"
  shows "toasts (handleSubmit isUrl toISO (Some u) oc thr st) = toasts st @ [toast_update_failed] \<and>
         onUpdate_calls (handleSubmit isUrl toISO (Some u) oc thr st) = onUpdate_calls st \<and>
         onClose_calls (handleSubmit isUrl toISO (Some u) oc thr st) = onClose_calls st \<and>
         form_values (handleSubmit isUrl toISO (Some u) oc thr st) = form_values st \<and>
         profileImagePreview (handleSubmit isUrl toISO (Some u) oc thr st) = profileImagePreview st \<and>
         \<not> isSubmitting (handleSubmit isUrl toISO (Some u) oc thr st)"
proof -
  have cu: "checked_user (Some u) = Some (u, uid)"
    using assms(1,2) by (rule checked_userI)
  obtain pd where "handleSubmit_start isUrl toISO (Some u) st =
       (st\<lparr>form_errors := [], isSubmitting := True,
           updateProfile_calls := updateProfile_calls st @ [(uid, pd)]\<rparr>, Some (uid, pd))"
    using handleSubmit_start_valid [OF cu assms(3)] by blast
  then show ?thesis
    using assms(4)
    by (auto simp: handleSubmit_def onSubmit_resume_def update_catch_def effect_defs)
qed

theorem submit_failure_keeps_form_witness:
  "toasts (handleSubmit sample_isUrl sample_toISOString (Some alice) Controller_throws False alice_form)
     = [toast_update_failed] \<and>
   onUpdate_calls (handleSubmit sample_isUrl sample_toISOString (Some alice) Controller_throws False alice_form) = [] \<and>
   onClose_calls (handleSubmit sample_isUrl sample_toISOString (Some alice) Controller_throws False alice_form) = 0 \<and>
   username (form_values (handleSubmit sample_isUrl sample_toISOString (Some alice) Controller_throws False alice_form))
     = ''alice123''"
proof -
  have a: "u_id alice = Some ''u1''" by (simp add: alice_def)
  have b: "''u1'' \<noteq> []" by simp
  have d: "Controller_throws = Controller_throws \<or> Controller_throws = Controller_returns None"
    by simp
  have c: "toasts alice_form = []" "onUpdate_calls alice_form = []" "onClose_calls alice_form = 0"
    "username (form_values alice_form) = ''alice123''"
    by (simp_all add: sample_defs)
  show ?thesis
    using submit_failure_keeps_form [OF a b alice_form_valid d, of sample_toISOString False]
    by (simp add: c)
qed

section \<open>Image upload\<close>

text \<open>
  Claim C2, as amended. When an upload fails (the request is rejected, the status is not OK,
  the body cannot be read, or it holds no URL), then, whatever the state at that moment, the
  handler sets the preview to the persisted profile picture of the user (null when there
  is none), clears the pending image, ends the uploading state and shows the upload error
  notice. The same holds of a whole run of the handler on a file that passes its checks.
\<close>

theorem upload_failure_restores_persisted_image:
  assumes "upload_fails oc"
  shows "profileImagePreview (handleImageChange_resume u oc st) = persisted_pfp u \<and>
         profileImage (handleImageChange_resume u oc st) = None \<and>
         \<not> uploadingImage (handleImageChange_resume u oc st) \<and>
         toasts (handleImageChange_resume u oc st) = toasts st @ [toast_upload_failed] \<and>
         (snd (handleImageChange_start (Some u) files st) \<noteq> None \<longrightarrow>
            profileImagePreview (handleImageChange (Some u) files oc st) = persisted_pfp u \<and>
            profileImage (handleImageChange (Some u) files oc st) = None \<and>
            \<not> uploadingImage (handleImageChange (Some u) files oc st) \<and>
            toasts (handleImageChange (Some u) files oc st) = toasts st @ [toast_upload_failed])"
proof -
  have r: "\<And>s. handleImageChange_resume u oc s = upload_catch u s"
    using assms by (rule resume_fails)
  have "snd (handleImageChange_start (Some u) files st) \<noteq> None \<Longrightarrow>
      \<exists>st1 req. handleImageChange_start (Some u) files st = (st1, Some (u, req)) \<and> toasts st1 = toasts st"
  proof -
    assume "snd (handleImageChange_start (Some u) files st) \<noteq> None"
    then obtain st1 u' req where
      e: "handleImageChange_start (Some u) files st = (st1, Some (u', req))"
      by (cases "handleImageChange_start (Some u) files st") auto
    from start_sends [OF e] checked_user_SomeD have "u' = u" and "toasts st1 = toasts st"
      by auto
    with e show ?thesis by simp
  qed
  then show ?thesis
    by (auto simp: r handleImageChange_def upload_catch_props)
qed

theorem upload_failure_restores_persisted_image_witness:
  "profileImagePreview (handleImageChange (Some alice) (Some [small_png]) Fetch_rejects alice_form)
     = Some ''https://x/old.png'' \<and>
   profileImage (handleImageChange (Some alice) (Some [small_png]) Fetch_rejects alice_form) = None \<and>
   toasts (handleImageChange (Some alice) (Some [small_png]) Fetch_rejects alice_form)
     = [toast_upload_failed]"
proof -
  have f: "upload_fails Fetch_rejects" by (simp add: upload_fails_def)
  have s: "snd (handleImageChange_start (Some alice) (Some [small_png]) alice_form) \<noteq> None"
    by (simp add: handleImageChange_start_def sample_defs js_defs Let_def)
  have p: "persisted_pfp alice = Some ''https://x/old.png''" "toasts alice_form = []"
    by (simp_all add: sample_defs js_defs)
  show ?thesis
    using upload_failure_restores_persisted_image [OF f, of alice alice_form "Some [small_png]"] s p
    by simp
qed

text \<open>
  Claim C2 as first stated takes the persisted picture to be the value the preview had
  before the upload. After an earlier upload that succeeded and was not yet saved, the
  preview is the uploaded URL; a second upload that fails does not bring that value back.
\<close>

theorem upload_failure_pre_upload_value_counterexample:
  "profileImagePreview uploaded_once = Some ''https://x/img.png'' \<and>
   profileImagePreview
     (handleImageChange (Some alice) (Some [small_png]) Fetch_rejects uploaded_once)
     = Some ''https://x/old.png''"
  by (simp add: uploaded_once_preview)
     (simp add: upload_defs sample_defs js_defs effect_defs Let_def)

text \<open>
  Claim C4, as amended. For every selected file whose size exceeds 5 MB or whose type does
  not start with \<open>image/\<close>, the handler ends before the upload request: no request is sent.
  The notice shown is the missing-user error when no user id is present; otherwise it is the
  size error when the file exceeds 5 MB, and the type error when it does not.
\<close>

theorem oversize_or_non_image_never_uploaded:
  assumes "file_size f > 5 * 1024 * 1024 \<or> \<not> startsWith (file_type f) ''image/''"
  shows "snd (handleImageChange_start uo (Some (f # fs)) st) = None \<and>
         fetches (handleImageChange uo (Some (f # fs)) oc st) = fetches st \<and>
         toasts (handleImageChange uo (Some (f # fs)) oc st) =
           toasts st @
             [if checked_user uo = None then toast_missing_user
              else if file_size f > 5 * 1024 * 1024 then toast_size
              else toast_type]"
  using assms
  by (auto simp: handleImageChange_def handleImageChange_start_def effect_defs
      split: option.splits)

theorem oversize_or_non_image_never_uploaded_witness:
  "fetches (handleImageChange (Some alice) (Some [huge_png]) Fetch_rejects alice_form) = [] \<and>
   toasts (handleImageChange (Some alice) (Some [huge_png]) Fetch_rejects alice_form) = [toast_size]"
proof -
  have h: "file_size huge_png > 5 * 1024 * 1024 \<or> \<not> startsWith (file_type huge_png) ''image/''"
    by (simp add: huge_png_def)
  have c: "checked_user (Some alice) \<noteq> None" "fetches alice_form = []" "toasts alice_form = []"
    "file_size huge_png > 5 * 1024 * 1024"
    by (simp_all add: sample_defs)
  show ?thesis
    using oversize_or_non_image_never_uploaded
        [OF h, where uo = "Some alice" and fs = "[]" and oc = Fetch_rejects and st = alice_form] c
    by simp
qed

text \<open>
  Claim C4 as first stated has every file over 5 MB rejected with the size error. For a
  user without an id the guard on the user comes first, and the notice is the missing-user
  error.
\<close>

theorem oversize_error_kind_counterexample:
  "5 * 1024 * 1024 < file_size huge_png \<and>
   toasts (handleImageChange (Some anonymous) (Some [huge_png]) Fetch_rejects
      (initial_state sample_newDate (Some anonymous))) = [toast_missing_user] \<and>
   toast_missing_user \<noteq> toast_size"
  by (simp add: upload_defs sample_defs js_defs effect_defs toast_missing_user_def toast_size_def)

text \<open>
  Claim C10. When the change event carries no file (the file list is absent or empty), the
  handler returns at once: the state, and with it every notice, request, preview and pending
  image, is unchanged.
\<close>

theorem no_files_no_effect:
  assumes "files = None \<or> files = Some []"
  shows "handleImageChange_start uo files st = (st, None) \<and>
         handleImageChange uo files oc st = st"
  using assms by (auto simp: handleImageChange_start_def handleImageChange_def)

theorem no_files_no_effect_witness:
  "handleImageChange (Some anonymous) (Some []) Fetch_rejects alice_form = alice_form \<and>
   handleImageChange (Some alice) None Fetch_rejects alice_form = alice_form"
proof -
  have a: "Some [] = None \<or> Some [] = Some ([] :: js_file list)" by simp
  have b: "None = None \<or> None = Some ([] :: js_file list)" by simp
  show ?thesis
    using no_files_no_effect [OF a, of "Some anonymous" alice_form Fetch_rejects]
      no_files_no_effect [OF b, of "Some alice" alice_form Fetch_rejects]
    by simp
qed

section \<open>Missing user\<close>

text \<open>
  Claim C7, as amended. When the user is absent or has no id, an image selection that
  carries a file, and a form submission whose values pass validation, each do nothing but
  show the missing-user notice; no upload request and no controller call is made. A form
  submission whose values fail validation makes no request either, but it shows the field
  errors and no notice, because the form validates before the submit handler runs.
\<close>

theorem missing_user_rejected:
  assumes "uo = None \<or> (\<exists>u. uo = Some u \<and> \<not> truthy (u_id u))"
  shows "handleImageChange uo (Some (f # fs)) foc st = show_toast toast_missing_user st \<and>
         onSubmit toISO uo d oc thr st = show_toast toast_missing_user st \<and>
         toasts (show_toast toast_missing_user st) = toasts st @ [toast_missing_user] \<and>
         fetches (show_toast toast_missing_user st) = fetches st \<and>
         updateProfile_calls (show_toast toast_missing_user st) = updateProfile_calls st \<and>
         (if profileFormSchema isUrl (form_values st) = []
          then handleSubmit isUrl toISO uo oc thr st
                 = show_toast toast_missing_user (st\<lparr>form_errors := []\<rparr>) \<and>
               toasts (handleSubmit isUrl toISO uo oc thr st) = toasts st @ [toast_missing_user]
          else handleSubmit isUrl toISO uo oc thr st
                 = st\<lparr>form_errors := profileFormSchema isUrl (form_values st)\<rparr> \<and>
               toasts (handleSubmit isUrl toISO uo oc thr st) = toasts st) \<and>
         fetches (handleSubmit isUrl toISO uo oc thr st) = fetches st \<and>
         updateProfile_calls (handleSubmit isUrl toISO uo oc thr st) = updateProfile_calls st"
proof -
  have cu: "checked_user uo = None"
    using assms by (rule missing_user_checked)
  show ?thesis
    by (simp add: cu handleImageChange_def handleImageChange_start_def onSubmit_def
        onSubmit_start_def handleSubmit_def handleSubmit_start_def effect_defs Let_def)
qed

theorem missing_user_rejected_witness:
  "toasts (handleImageChange (Some anonymous) (Some [small_png]) Fetch_rejects alice_form)
     = [toast_missing_user] \<and>
   fetches (handleImageChange (Some anonymous) (Some [small_png]) Fetch_rejects alice_form) = [] \<and>
   toasts (handleSubmit sample_isUrl sample_toISOString (Some anonymous)
       (Controller_returns (Some alice)) False alice_form) = [toast_missing_user] \<and>
   updateProfile_calls (handleSubmit sample_isUrl sample_toISOString (Some anonymous)
       (Controller_returns (Some alice)) False alice_form) = []"
proof -
  have a: "Some anonymous = None \<or> (\<exists>u. Some anonymous = Some u \<and> \<not> truthy (u_id u))"
    by (simp add: anonymous_def truthy_def)
  have c: "toasts alice_form = []" "fetches alice_form = []" "updateProfile_calls alice_form = []"
    by (simp_all add: sample_defs)
  show ?thesis
    using missing_user_rejected [OF a, where f = small_png and fs = "[]" and foc = Fetch_rejects
        and st = alice_form and toISO = sample_toISOString and d = "form_values alice_form"
        and oc = "Controller_returns (Some alice)" and thr = False and isUrl = sample_isUrl]
    by (simp add: c alice_form_valid show_toast_def)
qed

text \<open>
  Claim C7 as first stated has every form submission without a user id show the
  missing-user notice. On a form whose username is \<open>ab\<close>, a submission by the user without
  an id puts an error on the username field and shows no notice at all.
\<close>

theorem missing_user_invalid_form_counterexample:
  "u_id anonymous = None \<and>
   toasts (handleSubmit sample_isUrl sample_toISOString (Some anonymous)
       (Controller_returns (Some alice)) False
       ((initial_state sample_newDate (Some anonymous))
          \<lparr>form_values := (form_values (initial_state sample_newDate (Some anonymous)))
             \<lparr>username := ''ab''\<rparr>\<rparr>)) = [] \<and>
   form_errors (handleSubmit sample_isUrl sample_toISOString (Some anonymous)
       (Controller_returns (Some alice)) False
       ((initial_state sample_newDate (Some anonymous))
          \<lparr>form_values := (form_values (initial_state sample_newDate (Some anonymous)))
             \<lparr>username := ''ab''\<rparr>\<rparr>))
     = [(Username, ''Username must be at least 3 characters.'')]"
  by (simp add: submit_defs sample_defs js_defs schema_defs effect_defs Let_def)

section \<open>Validation\<close>

text \<open>
  Claim C5. The username check raises no issue exactly for the strings of length 3 to 30.
  A form whose username is in that range has no error on the username field; a form whose
  username is shorter than 3 or longer than 30 is not submitted: the username field gets a
  validation error, and neither the controller nor \<open>onUpdate\<close> is called.
\<close>

theorem username_length_3_to_30:
  "(username_issues s = [] \<longleftrightarrow> 3 \<le> length s \<and> length s \<le> 30) \<and>
   (3 \<le> length (username (form_values st)) \<and> length (username (form_values st)) \<le> 30 \<longrightarrow>
      Username \<notin> fst ` set (profileFormSchema isUrl (form_values st))) \<and>
   (length (username (form_values st)) < 3 \<or> 30 < length (username (form_values st)) \<longrightarrow>
      snd (handleSubmit_start isUrl toISO uo st) = None \<and>
      Username \<in> fst ` set (form_errors (handleSubmit isUrl toISO uo oc thr st)) \<and>
      updateProfile_calls (handleSubmit isUrl toISO uo oc thr st) = updateProfile_calls st \<and>
      onUpdate_calls (handleSubmit isUrl toISO uo oc thr st) = onUpdate_calls st)"
proof -
  have a: "username_issues s = [] \<longleftrightarrow> 3 \<le> length s \<and> length s \<le> 30"
    by (auto simp: username_issues_def)
  have ok: "Username \<notin> fst ` set (profileFormSchema isUrl (form_values st))"
    if "3 \<le> length (username (form_values st)) \<and> length (username (form_values st)) \<le> 30"
  proof -
    from that have "username_issues (username (form_values st)) = []"
      by (auto simp: username_issues_def)
    then show ?thesis
      unfolding profileFormSchema_def using other_fields_not_username by simp
  qed
  have b: "snd (handleSubmit_start isUrl toISO uo st) = None \<and>
      Username \<in> fst ` set (form_errors (handleSubmit isUrl toISO uo oc thr st)) \<and>
      updateProfile_calls (handleSubmit isUrl toISO uo oc thr st) = updateProfile_calls st \<and>
      onUpdate_calls (handleSubmit isUrl toISO uo oc thr st) = onUpdate_calls st"
    if "length (username (form_values st)) < 3 \<or> 30 < length (username (form_values st))"
  proof -
    from that have u: "username_issues (username (form_values st)) \<noteq> []"
      by (auto simp: username_issues_def)
    then have i: "profileFormSchema isUrl (form_values st) \<noteq> []"
      by (simp add: profileFormSchema_def)
    from u obtain m ms where "username_issues (username (form_values st)) = m # ms"
      by (cases "username_issues (username (form_values st))") auto
    then have "(Username, m) \<in> set (profileFormSchema isUrl (form_values st))"
      by (simp add: profileFormSchema_def)
    then have "Username \<in> fst ` set (profileFormSchema isUrl (form_values st))"
      by force
    then show ?thesis
      by (simp add: handleSubmit_def handleSubmit_start_invalid [OF i])
  qed
  show ?thesis using a ok b by blast
qed

theorem username_length_3_to_30_witness:
  "username_issues ''ab'' \<noteq> [] \<and>
   username_issues ''abc'' = [] \<and>
   username_issues (replicate 30 CHR ''a'') = [] \<and>
   username_issues (replicate 31 CHR ''a'') \<noteq> [] \<and>
   Username \<notin> fst ` set (profileFormSchema sample_isUrl (form_values alice_form)) \<and>
   Username \<in> fst ` set (form_errors (handleSubmit sample_isUrl sample_toISOString (Some alice)
      (Controller_returns (Some alice)) False
      (alice_form\<lparr>form_values := (form_values alice_form)\<lparr>username := ''ab''\<rparr>\<rparr>))) \<and>
   updateProfile_calls (handleSubmit sample_isUrl sample_toISOString (Some alice)
      (Controller_returns (Some alice)) False
      (alice_form\<lparr>form_values := (form_values alice_form)\<lparr>username := ''ab''\<rparr>\<rparr>)) = []"
proof -
  have c: "updateProfile_calls alice_form = []" "username (form_values alice_form) = ''alice123''"
    by (simp_all add: sample_defs)
  show ?thesis
    using username_length_3_to_30 [of "''ab''"
        "alice_form\<lparr>form_values := (form_values alice_form)\<lparr>username := ''ab''\<rparr>\<rparr>"
        sample_isUrl sample_toISOString "Some alice" "Controller_returns (Some alice)" False]
      username_length_3_to_30 [of "''abc''" alice_form sample_isUrl]
      username_length_3_to_30 [of "replicate 30 CHR ''a''"]
      username_length_3_to_30 [of "replicate 31 CHR ''a''"]
    by (simp add: c)
qed

text \<open>
  Claim C9. The website check raises no issue for the empty string, as for an absent value,
  whatever the URL syntax check says of it. A non-empty string that the URL syntax check
  rejects raises an issue, and a form holding it is not submitted: the website field gets a
  validation error and the controller is not called.
\<close>

theorem website_empty_or_url:
  "website_issues isUrl (Some []) = [] \<and>
   website_issues isUrl None = [] \<and>
   (s \<noteq> [] \<and> \<not> isUrl s \<longrightarrow>
      website_issues isUrl (Some s) \<noteq> [] \<and>
      (website (form_values st) = Some s \<longrightarrow>
         snd (handleSubmit_start isUrl toISO uo st) = None \<and>
         Website \<in> fst ` set (form_errors (handleSubmit isUrl toISO uo oc thr st)) \<and>
         updateProfile_calls (handleSubmit isUrl toISO uo oc thr st) = updateProfile_calls st))"
proof -
  have a: "website_issues isUrl (Some []) = []" "website_issues isUrl None = []"
    by (simp_all add: website_issues_def)
  have b: "website_issues isUrl (Some s) = [''Please enter a valid URL.'']" if "s \<noteq> []" "\<not> isUrl s"
    using that by (simp add: website_issues_def)
  have c: "snd (handleSubmit_start isUrl toISO uo st) = None \<and>
         Website \<in> fst ` set (form_errors (handleSubmit isUrl toISO uo oc thr st)) \<and>
         updateProfile_calls (handleSubmit isUrl toISO uo oc thr st) = updateProfile_calls st"
    if "s \<noteq> []" "\<not> isUrl s" "website (form_values st) = Some s"
  proof -
    have m: "(Website, ''Please enter a valid URL.'') \<in> set (profileFormSchema isUrl (form_values st))"
      using b [OF that(1,2)] that(3) by (simp add: profileFormSchema_def)
    then have i: "profileFormSchema isUrl (form_values st) \<noteq> []"
      by auto
    from m have "Website \<in> fst ` set (profileFormSchema isUrl (form_values st))"
      by force
    then show ?thesis
      by (simp add: handleSubmit_def handleSubmit_start_invalid [OF i])
  qed
  show ?thesis using a b c by simp
qed

theorem website_empty_or_url_witness:
  "website_issues sample_isUrl (Some []) = [] \<and>
   website_issues sample_isUrl (Some ''not-a-url'') \<noteq> [] \<and>
   updateProfile_calls (handleSubmit sample_isUrl sample_toISOString (Some alice)
      (Controller_returns (Some alice)) False
      (alice_form\<lparr>form_values := (form_values alice_form)\<lparr>website := Some ''not-a-url''\<rparr>\<rparr>)) = []"
proof -
  have h: "''not-a-url'' \<noteq> [] \<and> \<not> sample_isUrl ''not-a-url''"
    by (simp add: sample_isUrl_def startsWith_def)
  have c: "updateProfile_calls alice_form = []"
    by (simp add: sample_defs)
  show ?thesis
    using website_empty_or_url [of sample_isUrl "''not-a-url''"
        "alice_form\<lparr>form_values := (form_values alice_form)\<lparr>website := Some ''not-a-url''\<rparr>\<rparr>"
        sample_toISOString "Some alice" "Controller_returns (Some alice)" False] h
    by (simp add: c)
qed

section \<open>Submitting while an upload is pending\<close>

text \<open>
  Claim C8. In every state where \<open>uploadingImage\<close> is true the submit control is disabled
  and a submit event changes nothing. In every state the component can reach from its
  first render, an upload whose request has not settled has \<open>uploadingImage\<close> true, so
  there too the submit control is disabled and a submit event changes nothing.
\<close>

theorem submit_disabled_while_uploading:
  "(uploadingImage st \<longrightarrow> submit_disabled st \<and> step isUrl toISO uo st Submit = st) \<and>
   (upload_pending (run isUrl toISO newDate uo evs) \<longrightarrow>
      uploadingImage (run isUrl toISO newDate uo evs) \<and>
      submit_disabled (run isUrl toISO newDate uo evs) \<and>
      step isUrl toISO uo (run isUrl toISO newDate uo evs) Submit = run isUrl toISO newDate uo evs)"
proof -
  have a: "submit_disabled s \<and> step isUrl toISO uo s Submit = s" if "uploadingImage s" for s
    using that by (auto simp: submit_disabled_def step_def split: option.splits)
  show ?thesis
    using a run_pending [of isUrl toISO newDate uo evs] by blast
qed

theorem submit_disabled_while_uploading_witness:
  "upload_pending (run sample_isUrl sample_toISOString sample_newDate (Some alice)
      [Change_file (Some [small_png])]) \<and>
   submit_disabled (run sample_isUrl sample_toISOString sample_newDate (Some alice)
      [Change_file (Some [small_png])]) \<and>
   run sample_isUrl sample_toISOString sample_newDate (Some alice)
      [Change_file (Some [small_png]), Submit]
     = run sample_isUrl sample_toISOString sample_newDate (Some alice)
      [Change_file (Some [small_png])]"
proof -
  have p: "upload_pending (run sample_isUrl sample_toISOString sample_newDate (Some alice)
      [Change_file (Some [small_png])])"
    by (simp add: run_def step_def sample_defs js_defs upload_defs file_input_disabled_def Let_def)
  have r: "run sample_isUrl sample_toISOString sample_newDate (Some alice)
      [Change_file (Some [small_png]), Submit]
     = step sample_isUrl sample_toISOString (Some alice)
        (run sample_isUrl sample_toISOString sample_newDate (Some alice)
          [Change_file (Some [small_png])]) Submit"
    by (simp add: run_def)
  show ?thesis
    using submit_disabled_while_uploading [of
        "run sample_isUrl sample_toISOString sample_newDate (Some alice) [Change_file (Some [small_png])]"
        sample_isUrl sample_toISOString "Some alice" sample_newDate "[Change_file (Some [small_png])]"] p r
    by simp
qed

end
